theory Spec2Isabelle
  imports Main "HOL-Library.Word" "HOL-Library.AList"
begin

unbundle bit_operations_syntax

section \<open>Data model\<close>

text \<open>
  The handler of \<^verbatim>\<open>handler.py\<close> is embedded as pure functions over an explicit world.
  A Python \<^verbatim>\<open>str\<close> is the list of its code points, a \<^verbatim>\<open>bytes\<close> value a list of
  8-bit words. Dictionary keys are the literal key names of the source.
\<close>

type_synonym str = "nat list"
type_synonym bytes = "8 word list"

definition lit :: "string \<Rightarrow> str" where
  "lit s = map of_char s"

text \<open>
  A \<^verbatim>\<open>pathlib.Path\<close> (POSIX flavour): whether it starts at the root, and its components.
  The special root \<^verbatim>\<open>//\<close> of POSIX paths is not modelled.
\<close>

datatype path = Path (anchored: bool) (parts: "str list")

definition SLASH :: nat where
  "SLASH = 47"

definition DOT :: nat where
  "DOT = 46"

fun split_slash :: "str \<Rightarrow> str list" where
  "split_slash [] = [[]]"
| "split_slash (c # cs) =
     (if c = SLASH then [] # split_slash cs
      else (case split_slash cs of [] \<Rightarrow> [[c]] | x # xs \<Rightarrow> (c # x) # xs))"

text \<open>\<^verbatim>\<open>Path(s)\<close>: empty components and \<^verbatim>\<open>.\<close> components are dropped.\<close>

definition parse_path :: "str \<Rightarrow> path" where
  "parse_path s =
     Path (s \<noteq> [] \<and> hd s = SLASH) (filter (\<lambda>c. c \<noteq> [] \<and> c \<noteq> [DOT]) (split_slash s))"

fun join_slash :: "str list \<Rightarrow> str" where
  "join_slash [] = []"
| "join_slash [x] = x"
| "join_slash (x # y # ys) = x @ SLASH # join_slash (y # ys)"

text \<open>\<^verbatim>\<open>str(path)\<close>\<close>

definition path_str :: "path \<Rightarrow> str" where
  "path_str p =
     (if anchored p then SLASH # join_slash (parts p)
      else if parts p = [] then [DOT] else join_slash (parts p))"

text \<open>\<^verbatim>\<open>path / s\<close>: an absolute right operand replaces the left one.\<close>

definition path_join :: "path \<Rightarrow> str \<Rightarrow> path" where
  "path_join p s =
     (let q = parse_path s
      in if anchored q then q else Path (anchored p) (parts p @ parts q))"

text \<open>\<^verbatim>\<open>path.name\<close>\<close>

definition path_name :: "path \<Rightarrow> str" where
  "path_name p = (if parts p = [] then [] else last (parts p))"

text \<open>\<^verbatim>\<open>name.rfind('.')\<close>, as an option: the index of the last dot.\<close>

fun rfind_dot :: "str \<Rightarrow> nat option" where
  "rfind_dot [] = None"
| "rfind_dot (c # cs) =
     (case rfind_dot cs of
        Some i \<Rightarrow> Some (Suc i)
      | None \<Rightarrow> if c = DOT then Some 0 else None)"

text \<open>
  \<^verbatim>\<open>path.stem\<close> (Python 3.8 to 3.13): the name up to its last dot, when that dot is
  neither the first nor the last character of the name.
\<close>

definition path_stem :: "path \<Rightarrow> str" where
  "path_stem p =
     (let name = path_name p
      in case rfind_dot name of
           Some i \<Rightarrow> if 0 < i \<and> i < length name - 1 then take i name else name
         | None \<Rightarrow> name)"

text \<open>
  \<^verbatim>\<open>s.lower()\<close> on the ASCII letters. The source lowers a name only to test it for the
  suffix \<^verbatim>\<open>.pdf\<close>, and no code point outside ASCII lowers to one of these four.
\<close>

definition lower :: "str \<Rightarrow> str" where
  "lower s = map (\<lambda>c. if 65 \<le> c \<and> c \<le> 90 then c + 32 else c) s"

definition endswith :: "str \<Rightarrow> str \<Rightarrow> bool" where
  "endswith s sfx = (length sfx \<le> length s \<and> drop (length s - length sfx) s = sfx)"

text \<open>\<^verbatim>\<open>str.isspace\<close> for one code point, and \<^verbatim>\<open>s.strip()\<close>.\<close>

definition isspace :: "nat \<Rightarrow> bool" where
  "isspace c =
     ((9 \<le> c \<and> c \<le> 13) \<or> (28 \<le> c \<and> c \<le> 32) \<or> c = 133 \<or> c = 160 \<or> c = 5760
      \<or> (8192 \<le> c \<and> c \<le> 8202) \<or> c = 8232 \<or> c = 8233 \<or> c = 8239 \<or> c = 8287
      \<or> c = 12288)"

definition strip :: "str \<Rightarrow> str" where
  "strip s = rev (dropWhile isspace (rev (dropWhile isspace s)))"

text \<open>\<^verbatim>\<open>sep.join(xs)\<close>\<close>

fun join :: "str \<Rightarrow> str list \<Rightarrow> str" where
  "join sep [] = []"
| "join sep [x] = x"
| "join sep (x # y # ys) = x @ sep @ join sep (y # ys)"

section \<open>Exceptions, the filesystem and the environment\<close>

datatype exn =
    HandlerError str
  | HTTPError
  | BinasciiError
  | ValueError
  | UnicodeDecodeError
  | RuntimeError
  | OSError

datatype node = File bytes | Dir

text \<open>
  The world a job call runs in: the filesystem as an association list from paths to
  nodes, the candidate names \<^verbatim>\<open>tempfile.mkstemp\<close> will draw, and the paths whose
  removal the operating system refuses. A relative path is a key of its own: it is not
  resolved against a working directory.
\<close>

record world =
  files :: "(path \<times> node) list"
  names :: "str list"
  locked :: "path list"

text \<open>\<^verbatim>\<open>subprocess.CompletedProcess\<close>\<close>

record completed =
  returncode :: int
  stdout :: str
  stderr :: str

text \<open>
  What the module takes from outside. \<^verbatim>\<open>ROOT_DIR\<close> is the directory of the handler's
  file and \<^verbatim>\<open>DEFAULT_OUTPUT_DIR\<close> is read from the process environment at import time.
  \<^verbatim>\<open>homedir\<close> is \<^verbatim>\<open>os.path.expanduser\<close> on a \<^verbatim>\<open>~user\<close> component, \<^verbatim>\<open>http_get\<close> is
  \<^verbatim>\<open>requests.get\<close> (an exception, or a status code and a body), \<^verbatim>\<open>subprocess_run\<close>
  is \<^verbatim>\<open>subprocess.run\<close> of an argument vector in a working directory (the external
  pipeline: it may change the world in any way), and \<^verbatim>\<open>zip_bytes\<close> is the serialisation
  of a list of archive entries by \<^verbatim>\<open>zipfile\<close> (an entry is a relative path with the
  bytes of a file, or with nothing for a directory).
\<close>

record env =
  ROOT_DIR :: path
  DEFAULT_OUTPUT_DIR :: path
  tmpdir :: path
  homedir :: "str \<Rightarrow> str option"
  http_get :: "str \<Rightarrow> exn + nat \<times> bytes"
  subprocess_run :: "str list \<Rightarrow> path \<Rightarrow> world \<Rightarrow> (exn + completed) \<times> world"
  zip_bytes :: "(str list \<times> bytes option) list \<Rightarrow> bytes"

definition SCRIPT_PATH :: "env \<Rightarrow> path" where
  "SCRIPT_PATH e = path_join (ROOT_DIR e) (lit ''custom_run_dpsk_ocr_pdf.py'')"

subsection \<open>Filesystem operations\<close>

text \<open>The root and the current directory always exist.\<close>

definition lookup :: "world \<Rightarrow> path \<Rightarrow> node option" where
  "lookup w p = (if parts p = [] then Some Dir else map_of (files w) p)"

definition path_exists :: "world \<Rightarrow> path \<Rightarrow> bool" where
  "path_exists w p = (lookup w p \<noteq> None)"

definition is_file :: "world \<Rightarrow> path \<Rightarrow> bool" where
  "is_file w p = (case lookup w p of Some (File bs) \<Rightarrow> True | _ \<Rightarrow> False)"

definition is_dir :: "world \<Rightarrow> path \<Rightarrow> bool" where
  "is_dir w p = (lookup w p = Some Dir)"

definition write_bytes :: "world \<Rightarrow> path \<Rightarrow> bytes \<Rightarrow> world" where
  "write_bytes w p bs = w\<lparr>files := AList.update p (File bs) (files w)\<rparr>"

text \<open>\<^verbatim>\<open>path.read_bytes()\<close>: a directory or a missing path cannot be read.\<close>

definition read_bytes :: "world \<Rightarrow> path \<Rightarrow> exn + bytes" where
  "read_bytes w p = (case lookup w p of Some (File bs) \<Rightarrow> Inr bs | _ \<Rightarrow> Inl OSError)"

text \<open>
  \<^verbatim>\<open>tempfile.mkstemp(suffix=suffix)\<close>: the first candidate name that does not exist yet
  is created as an empty file in the temporary directory. A supply of names that runs
  out stands for the library giving up with \<^verbatim>\<open>FileExistsError\<close>.
\<close>

definition temp_name :: "env \<Rightarrow> str \<Rightarrow> str \<Rightarrow> path" where
  "temp_name e suffix n = path_join (tmpdir e) (lit ''tmp'' @ n @ suffix)"

definition mkstemp :: "env \<Rightarrow> str \<Rightarrow> world \<Rightarrow> (exn + path) \<times> world" where
  "mkstemp e suffix w =
     (case dropWhile (\<lambda>n. path_exists w (temp_name e suffix n)) (names w) of
        [] \<Rightarrow> (Inl OSError, w\<lparr>names := []\<rparr>)
      | n # ns \<Rightarrow> (Inr (temp_name e suffix n), (write_bytes w (temp_name e suffix n) [])\<lparr>names := ns\<rparr>))"

subsection \<open>Base64, as \<^verbatim>\<open>binascii\<close> implements it\<close>

text \<open>The value of a character of the standard alphabet; 255 for any other byte.\<close>

definition table_a2b_base64 :: "8 word \<Rightarrow> 8 word" where
  "table_a2b_base64 c =
     (if 65 \<le> c \<and> c \<le> 90 then c - 65
      else if 97 \<le> c \<and> c \<le> 122 then c - 71
      else if 48 \<le> c \<and> c \<le> 57 then c + 4
      else if c = 43 then 62
      else if c = 47 then 63
      else 255)"

definition table_b2a_base64 :: "8 word \<Rightarrow> 8 word" where
  "table_b2a_base64 v =
     (if v < 26 then v + 65
      else if v < 52 then v + 71
      else if v < 62 then v - 4
      else if v = 62 then 43
      else 47)"

text \<open>
  \<^verbatim>\<open>binascii.a2b_base64\<close> without strict mode, which is what \<^verbatim>\<open>base64.b64decode\<close>
  calls by default: bytes outside the alphabet are skipped, a pad character ends the
  input once it completes a quad, and leftover characters of an unfinished quad are an
  error. The arguments are the position in the quad, the bits left over from the
  previous character, the pads seen since the last data character, and the output.
\<close>

fun a2b_loop :: "nat \<Rightarrow> 8 word \<Rightarrow> nat \<Rightarrow> bytes \<Rightarrow> bytes \<Rightarrow> exn + bytes" where
  "a2b_loop quad_pos leftchar pads out [] =
     (if quad_pos \<noteq> 0 then Inl BinasciiError else Inr out)"
| "a2b_loop quad_pos leftchar pads out (c # cs) =
     (if c = 61 then
        (if 2 \<le> quad_pos \<and> 4 \<le> quad_pos + (pads + 1) then Inr out
         else a2b_loop quad_pos leftchar (if 2 \<le> quad_pos then pads + 1 else pads) out cs)
      else
        (let this_ch = table_a2b_base64 c
         in if 64 \<le> this_ch then a2b_loop quad_pos leftchar pads out cs
            else if quad_pos = 0 then a2b_loop 1 this_ch 0 out cs
            else if quad_pos = 1 then
              a2b_loop 2 (this_ch AND 15) 0 (out @ [push_bit 2 leftchar OR drop_bit 4 this_ch]) cs
            else if quad_pos = 2 then
              a2b_loop 3 (this_ch AND 3) 0 (out @ [push_bit 4 leftchar OR drop_bit 2 this_ch]) cs
            else a2b_loop 0 0 0 (out @ [push_bit 6 leftchar OR this_ch]) cs))"

definition a2b_base64 :: "bytes \<Rightarrow> exn + bytes" where
  "a2b_base64 s = a2b_loop 0 0 0 [] s"

text \<open>
  \<^verbatim>\<open>base64.b64decode(s)\<close> for a \<^verbatim>\<open>str\<close>: the string is encoded as ASCII first, and a
  character outside ASCII is a \<^verbatim>\<open>ValueError\<close>.
\<close>

definition b64decode :: "str \<Rightarrow> exn + bytes" where
  "b64decode s =
     (if list_ex (\<lambda>c. 128 \<le> c) s then Inl ValueError else a2b_base64 (map of_nat s))"

text \<open>\<^verbatim>\<open>base64.b64encode\<close>: three bytes give four characters, the rest is padded.\<close>

fun b64encode :: "bytes \<Rightarrow> bytes" where
  "b64encode (a # b # c # rest) =
     table_b2a_base64 (drop_bit 2 a)
     # table_b2a_base64 (push_bit 4 (a AND 3) OR drop_bit 4 b)
     # table_b2a_base64 (push_bit 2 (b AND 15) OR drop_bit 6 c)
     # table_b2a_base64 (c AND 63)
     # b64encode rest"
| "b64encode [a, b] =
     [table_b2a_base64 (drop_bit 2 a),
      table_b2a_base64 (push_bit 4 (a AND 3) OR drop_bit 4 b),
      table_b2a_base64 (push_bit 2 (b AND 15)), 61]"
| "b64encode [a] =
     [table_b2a_base64 (drop_bit 2 a), table_b2a_base64 (push_bit 4 (a AND 3)), 61, 61]"
| "b64encode [] = []"

subsection \<open>UTF-8\<close>

definition is_cont :: "8 word \<Rightarrow> bool" where
  "is_cont b = (128 \<le> unat b \<and> unat b \<le> 191)"

text \<open>
  One step of the strict UTF-8 decoder of \<^verbatim>\<open>bytes.decode("utf-8")\<close>: the first code
  point and the remaining bytes, or nothing when the input does not start with a
  well-formed sequence (overlong forms, surrogates and values above 10FFFF are refused).
\<close>

fun utf8_next :: "bytes \<Rightarrow> (nat \<times> bytes) option" where
  "utf8_next [] = None"
| "utf8_next (b0 # bs) =
     (if unat b0 < 128 then Some (unat b0, bs)
      else if 194 \<le> unat b0 \<and> unat b0 \<le> 223 then
        (case bs of
           b1 # r \<Rightarrow>
             if is_cont b1 then Some ((unat b0 - 192) * 64 + (unat b1 - 128), r) else None
         | _ \<Rightarrow> None)
      else if 224 \<le> unat b0 \<and> unat b0 \<le> 239 then
        (case bs of
           b1 # b2 # r \<Rightarrow>
             if (if unat b0 = 224 then 160 \<le> unat b1 \<and> unat b1 \<le> 191
                 else if unat b0 = 237 then 128 \<le> unat b1 \<and> unat b1 \<le> 159
                 else is_cont b1) \<and> is_cont b2
             then Some ((unat b0 - 224) * 4096 + (unat b1 - 128) * 64 + (unat b2 - 128), r)
             else None
         | _ \<Rightarrow> None)
      else if 240 \<le> unat b0 \<and> unat b0 \<le> 244 then
        (case bs of
           b1 # b2 # b3 # r \<Rightarrow>
             if (if unat b0 = 240 then 144 \<le> unat b1 \<and> unat b1 \<le> 191
                 else if unat b0 = 244 then 128 \<le> unat b1 \<and> unat b1 \<le> 143
                 else is_cont b1) \<and> is_cont b2 \<and> is_cont b3
             then Some ((unat b0 - 240) * 262144 + (unat b1 - 128) * 4096
                        + (unat b2 - 128) * 64 + (unat b3 - 128), r)
             else None
         | _ \<Rightarrow> None)
      else None)"

lemma utf8_next_shorter: "utf8_next bs = Some (c, r) \<Longrightarrow> length r < length bs"
  by (cases bs) (auto split: if_splits list.splits)

text \<open>\<^verbatim>\<open>bs.decode("utf-8")\<close>\<close>

function utf8_decode :: "bytes \<Rightarrow> exn + str" where
  "utf8_decode [] = Inr []"
| "utf8_decode (b # bs) =
     (case utf8_next (b # bs) of
        None \<Rightarrow> Inl UnicodeDecodeError
      | Some (c, r) \<Rightarrow>
          (case utf8_decode r of Inl x \<Rightarrow> Inl x | Inr cs \<Rightarrow> Inr (c # cs)))"
  by pat_completeness auto
termination
  by (relation "measure length") (auto dest: utf8_next_shorter simp del: utf8_next.simps)

text \<open>
  The other direction, \<^verbatim>\<open>s.encode("utf-8")\<close>, against which the decoded text is
  compared: a surrogate or a value above 10FFFF cannot be encoded.
\<close>

definition utf8_encode1 :: "nat \<Rightarrow> bytes option" where
  "utf8_encode1 c =
     (if c < 128 then Some [of_nat c]
      else if c < 2048 then Some [of_nat (192 + c div 64), of_nat (128 + c mod 64)]
      else if c < 65536 then
        (if 55296 \<le> c \<and> c \<le> 57343 then None
         else Some [of_nat (224 + c div 4096), of_nat (128 + c div 64 mod 64),
                    of_nat (128 + c mod 64)])
      else if c < 1114112 then
        Some [of_nat (240 + c div 262144), of_nat (128 + c div 4096 mod 64),
              of_nat (128 + c div 64 mod 64), of_nat (128 + c mod 64)]
      else None)"

fun utf8_encode :: "str \<Rightarrow> exn + bytes" where
  "utf8_encode [] = Inr []"
| "utf8_encode (c # cs) =
     (case utf8_encode1 c of
        None \<Rightarrow> Inl ValueError
      | Some bs \<Rightarrow> (case utf8_encode cs of Inl x \<Rightarrow> Inl x | Inr r \<Rightarrow> Inr (bs @ r)))"

section \<open>Input resolution\<close>

text \<open>
  \<^verbatim>\<open>_download_to_file\<close>: \<^verbatim>\<open>raise_for_status\<close> raises for a status from 400 to 599, before
  any temporary file is made.
\<close>

definition download_to_file :: "env \<Rightarrow> str \<Rightarrow> str \<Rightarrow> world \<Rightarrow> (exn + path) \<times> world" where
  "download_to_file e url suffix w =
     (case http_get e url of
        Inl x \<Rightarrow> (Inl x, w)
      | Inr (status, content) \<Rightarrow>
          if 400 \<le> status \<and> status < 600 then (Inl HTTPError, w)
          else (case mkstemp e suffix w of
                  (Inl x, w') \<Rightarrow> (Inl x, w')
                | (Inr temp_path, w') \<Rightarrow> (Inr temp_path, write_bytes w' temp_path content)))"

text \<open>
  \<^verbatim>\<open>_write_base64_file\<close>: the temporary file is made first; the payload is decoded
  inside the \<^verbatim>\<open>with\<close> block that writes it.
\<close>

definition write_base64_file :: "env \<Rightarrow> str \<Rightarrow> str \<Rightarrow> world \<Rightarrow> (exn + path) \<times> world" where
  "write_base64_file e encoded suffix w =
     (case mkstemp e suffix w of
        (Inl x, w') \<Rightarrow> (Inl x, w')
      | (Inr temp_path, w') \<Rightarrow>
          (case b64decode encoded of
             Inl x \<Rightarrow> (Inl x, w')
           | Inr bs \<Rightarrow> (Inr temp_path, write_bytes w' temp_path bs)))"

text \<open>\<^verbatim>\<open>path.expanduser()\<close>\<close>

definition expanduser :: "env \<Rightarrow> path \<Rightarrow> exn + path" where
  "expanduser e p =
     (if \<not> anchored p \<and> parts p \<noteq> [] \<and> take 1 (hd (parts p)) = [126] then
        (case homedir e (hd (parts p)) of
           None \<Rightarrow> Inl RuntimeError
         | Some h \<Rightarrow> Inr (Path (anchored (parse_path h)) (parts (parse_path h) @ tl (parts p))))
      else Inr p)"

text \<open>
  \<^verbatim>\<open>_ensure_pdf_input\<close>: the resolved path and the list of paths to clean up. The job
  input maps the key names to strings.
\<close>

definition ensure_pdf_input ::
  "env \<Rightarrow> (string \<rightharpoonup> str) \<Rightarrow> world \<Rightarrow> (exn + path \<times> path list) \<times> world" where
  "ensure_pdf_input e job_input w =
     (case job_input ''pdf_path'' of
        Some s \<Rightarrow>
          (case expanduser e (parse_path s) of
             Inl x \<Rightarrow> (Inl x, w)
           | Inr candidate \<Rightarrow>
               if \<not> path_exists w candidate
               then (Inl (HandlerError
                      (lit ''Provided pdf_path does not exist: '' @ path_str candidate)), w)
               else (Inr (candidate, []), w))
      | None \<Rightarrow>
          (case job_input ''pdf_url'' of
             Some url \<Rightarrow>
               (case download_to_file e url (lit ''.pdf'') w of
                  (Inl x, w') \<Rightarrow> (Inl x, w')
                | (Inr downloaded, w') \<Rightarrow> (Inr (downloaded, [downloaded]), w'))
           | None \<Rightarrow>
               (case job_input ''pdf_base64'' of
                  Some encoded \<Rightarrow>
                    (case write_base64_file e encoded (lit ''.pdf'') w of
                       (Inl x, w') \<Rightarrow> (Inl x, w')
                     | (Inr decoded, w') \<Rightarrow> (Inr (decoded, [decoded]), w'))
                | None \<Rightarrow>
                    (Inl (HandlerError (lit
                       ''No PDF input provided. Supply one of `pdf_path`, `pdf_url`, or `pdf_base64`.'')),
                     w))))"

section \<open>The pipeline command\<close>

text \<open>
  \<^verbatim>\<open>_build_command\<close>. The prompt is an \<^verbatim>\<open>Optional[str]\<close>; \<^verbatim>\<open>if prompt:\<close> holds for
  a string that is not empty.
\<close>

definition build_command :: "env \<Rightarrow> path \<Rightarrow> path \<Rightarrow> str option \<Rightarrow> str list" where
  "build_command cfg pdf_path output_dir prompt =
     (let command =
        [lit ''python'', path_str (SCRIPT_PATH cfg), lit ''--input'', path_str pdf_path,
         lit ''--output'', path_str output_dir]
      in case prompt of
           None \<Rightarrow> command
         | Some p \<Rightarrow> if p \<noteq> [] then command @ [lit ''--prompt'', p] else command)"

section \<open>Artifact collection\<close>

datatype pyval = PInt int | PStr str

text \<open>
  The nested \<^verbatim>\<open>_encode_text_file\<close>: nothing for a missing path, the text of a file of
  at most 500000 bytes, the base64 form of a larger one.
\<close>

definition encode_text_file :: "world \<Rightarrow> path \<Rightarrow> exn + str option" where
  "encode_text_file w file_path =
     (if \<not> path_exists w file_path then Inr None
      else (case read_bytes w file_path of
              Inl x \<Rightarrow> Inl x
            | Inr text_bytes \<Rightarrow>
                if length text_bytes \<le> 500000 then
                  (case utf8_decode text_bytes of Inl x \<Rightarrow> Inl x | Inr t \<Rightarrow> Inr (Some t))
                else
                  (case utf8_decode (b64encode text_bytes) of
                     Inl x \<Rightarrow> Inl x
                   | Inr t \<Rightarrow> Inr (Some t))))"

text \<open>A path strictly below a directory.\<close>

definition under :: "path \<Rightarrow> path \<Rightarrow> bool" where
  "under d p =
     (anchored p = anchored d \<and> length (parts d) < length (parts p)
      \<and> take (length (parts d)) (parts p) = parts d)"

text \<open>
  What \<^verbatim>\<open>shutil.make_archive\<close> puts into a zip archive of \<^verbatim>\<open>root_dir\<close>: every
  directory and file below it, under its path relative to \<^verbatim>\<open>root_dir\<close>. Only the
  binding of a path that \<^verbatim>\<open>lookup\<close> sees counts.
\<close>

definition archive_entries :: "world \<Rightarrow> path \<Rightarrow> (str list \<times> bytes option) list" where
  "archive_entries w root_dir =
     map (\<lambda>(p, n). (drop (length (parts root_dir)) (parts p),
                     (case n of File bs \<Rightarrow> Some bs | Dir \<Rightarrow> None)))
       (filter (\<lambda>(p, n). under root_dir p \<and> map_of (files w) p = Some n) (files w))"

text \<open>
  \<^verbatim>\<open>shutil.make_archive(base_name, "zip", root_dir)\<close>: the archive is written to
  \<^verbatim>\<open>base_name + ".zip"\<close>, and that name is returned. A root that is not a directory is a
  \<^verbatim>\<open>NotADirectoryError\<close>.
\<close>

definition make_archive :: "env \<Rightarrow> str \<Rightarrow> path \<Rightarrow> world \<Rightarrow> (exn + str) \<times> world" where
  "make_archive e base_name root_dir w =
     (if \<not> is_dir w root_dir then (Inl OSError, w)
      else (let zip_filename = base_name @ lit ''.zip''
            in (Inr zip_filename,
                write_bytes w (parse_path zip_filename)
                  (zip_bytes e (archive_entries w root_dir)))))"

definition base_stem :: "path \<Rightarrow> str" where
  "base_stem pdf_path =
     (let pdf_name = path_name pdf_path
      in if endswith (lower pdf_name) (lit ''.pdf'')
         then take (length pdf_name - 4) pdf_name
         else path_stem pdf_path)"

text \<open>\<^verbatim>\<open>_collect_artifacts\<close>\<close>

definition collect_artifacts ::
  "env \<Rightarrow> path \<Rightarrow> path \<Rightarrow> world \<Rightarrow> (exn + (string \<rightharpoonup> pyval)) \<times> world" where
  "collect_artifacts e pdf_path output_dir w =
     (let markdown_path = path_join output_dir (base_stem pdf_path @ lit ''.mmd'');
          detail_markdown_path = path_join output_dir (base_stem pdf_path @ lit ''_det.mmd'');
          layout_pdf_path = path_join output_dir (base_stem pdf_path @ lit ''_layouts.pdf'');
          images_dir = path_join output_dir (lit ''images'')
      in case encode_text_file w markdown_path of
           Inl x \<Rightarrow> (Inl x, w)
         | Inr markdown_content \<Rightarrow>
      (let artifacts1 =
         (case markdown_content of
            Some c \<Rightarrow> [''markdown'' \<mapsto> PStr c,
                       ''markdown_path'' \<mapsto> PStr (path_str markdown_path)]
          | None \<Rightarrow> [''markdown_missing'' \<mapsto> PStr (path_str markdown_path)])
       in case encode_text_file w detail_markdown_path of
            Inl x \<Rightarrow> (Inl x, w)
          | Inr detection_content \<Rightarrow>
      (let artifacts2 =
         (case detection_content of
            Some c \<Rightarrow> artifacts1(''detection_markdown'' \<mapsto> PStr c,
                         ''detection_markdown_path'' \<mapsto> PStr (path_str detail_markdown_path))
          | None \<Rightarrow> artifacts1)
       in case (if path_exists w layout_pdf_path then
                  (case read_bytes w layout_pdf_path of
                     Inl x \<Rightarrow> Inl x
                   | Inr bs \<Rightarrow>
                       (case utf8_decode (b64encode bs) of
                          Inl x \<Rightarrow> Inl x
                        | Inr t \<Rightarrow>
                            Inr (artifacts2(''layout_pdf_path'' \<mapsto> PStr (path_str layout_pdf_path),
                                   ''layout_pdf_base64'' \<mapsto> PStr t))))
                else Inr artifacts2) of
            Inl x \<Rightarrow> (Inl x, w)
          | Inr artifacts3 \<Rightarrow>
              if path_exists w images_dir then
                (case make_archive e
                        (path_str (path_join output_dir (base_stem pdf_path @ lit ''_images'')))
                        images_dir w of
                   (Inl x, w') \<Rightarrow> (Inl x, w')
                 | (Inr archive, w') \<Rightarrow>
                     (Inr (artifacts3(''images_archive_path'' \<mapsto>
                             PStr (path_str (parse_path archive)))), w'))
              else (Inr artifacts3, w))))"

section \<open>Cleanup and the handler\<close>

text \<open>
  \<^verbatim>\<open>path.unlink()\<close> removes a file; \<^verbatim>\<open>shutil.rmtree\<close> removes a directory and all
  below it. Both raise \<^verbatim>\<open>OSError\<close> when the operating system refuses; which entries a
  failing \<^verbatim>\<open>rmtree\<close> had already removed is not modelled: it leaves the tree as it was.
\<close>

definition unlink :: "world \<Rightarrow> path \<Rightarrow> exn + world" where
  "unlink w p =
     (case lookup w p of
        Some (File bs) \<Rightarrow>
          if p \<in> set (locked w) then Inl OSError
          else Inr (w\<lparr>files := AList.delete p (files w)\<rparr>)
      | _ \<Rightarrow> Inl OSError)"

definition rmtree :: "world \<Rightarrow> path \<Rightarrow> exn + world" where
  "rmtree w p =
     (if \<not> is_dir w p \<or> list_ex (\<lambda>q. q = p \<or> under p q) (locked w) then Inl OSError
      else Inr (w\<lparr>files := filter (\<lambda>(q, n). \<not> (q = p \<or> under p q)) (files w)\<rparr>))"

text \<open>The body of the cleanup loop: \<^verbatim>\<open>except OSError: pass\<close> swallows that exception only.\<close>

definition cleanup_path :: "world \<Rightarrow> path \<Rightarrow> exn + world" where
  "cleanup_path w p =
     (case (if is_file w p then (if path_exists w p then unlink w p else Inr w)
            else if is_dir w p then rmtree w p
            else Inr w) of
        Inl x \<Rightarrow> if x = OSError then Inr w else Inl x
      | Inr w' \<Rightarrow> Inr w')"

fun cleanup :: "path list \<Rightarrow> world \<Rightarrow> exn + world" where
  "cleanup [] w = Inr w"
| "cleanup (p # ps) w =
     (case cleanup_path w p of Inl x \<Rightarrow> Inl x | Inr w' \<Rightarrow> cleanup ps w')"

text \<open>
  \<^verbatim>\<open>output_dir.mkdir(parents=True, exist_ok=True)\<close>: every missing ancestor is made,
  an existing directory is accepted, a file in the way is an error.
\<close>

fun mkdir_prefixes :: "bool \<Rightarrow> str list \<Rightarrow> str list \<Rightarrow> world \<Rightarrow> exn + world" where
  "mkdir_prefixes a pre [] w = Inr w"
| "mkdir_prefixes a pre (c # cs) w =
     (case lookup w (Path a (pre @ [c])) of
        Some (File bs) \<Rightarrow> Inl OSError
      | Some Dir \<Rightarrow> mkdir_prefixes a (pre @ [c]) cs w
      | None \<Rightarrow>
          mkdir_prefixes a (pre @ [c]) cs
            (w\<lparr>files := AList.update (Path a (pre @ [c])) Dir (files w)\<rparr>))"

definition mkdir_parents :: "world \<Rightarrow> path \<Rightarrow> exn + world" where
  "mkdir_parents w p = mkdir_prefixes (anchored p) [] (parts p) w"

text \<open>\<^verbatim>\<open>_run_pipeline\<close>: the command runs in \<^verbatim>\<open>ROOT_DIR\<close>; \<^verbatim>\<open>check=False\<close>.\<close>

definition run_pipeline :: "env \<Rightarrow> str list \<Rightarrow> world \<Rightarrow> (exn + completed) \<times> world" where
  "run_pipeline e command w = subprocess_run e command (ROOT_DIR e) w"

text \<open>The response before the status is known.\<close>

definition base_response :: "str list \<Rightarrow> completed \<Rightarrow> (string \<rightharpoonup> pyval)" where
  "base_response command process =
     [''command'' \<mapsto> PStr (join (lit '' '') command),
      ''return_code'' \<mapsto> PInt (returncode process),
      ''stdout'' \<mapsto> PStr (strip (stdout process)),
      ''stderr'' \<mapsto> PStr (strip (stderr process))]"

text \<open>
  The steps of \<^verbatim>\<open>handler\<close> after the pipeline has run. First the response is
  assembled: the status, and the artifacts when the return code is zero.
\<close>

definition assemble_response ::
  "env \<Rightarrow> path \<Rightarrow> path \<Rightarrow> str list \<Rightarrow> completed \<Rightarrow> world
   \<Rightarrow> (exn + (string \<rightharpoonup> pyval)) \<times> world" where
  "assemble_response e pdf_path output_dir command process w =
     (if returncode process \<noteq> 0 then
        (Inr ((base_response command process)(''status'' \<mapsto> PStr (lit ''failed''))), w)
      else
        (case collect_artifacts e pdf_path output_dir w of
           (Inl x, w') \<Rightarrow> (Inl x, w')
         | (Inr artifacts, w') \<Rightarrow>
             (Inr ((base_response command process)(''status'' \<mapsto> PStr (lit ''succeeded''))
                   ++ artifacts), w')))"

text \<open>
  Then the cleanup loop runs and the response is returned. An exception of the
  collection leaves before the loop.
\<close>

definition respond ::
  "env \<Rightarrow> path \<Rightarrow> path \<Rightarrow> path list \<Rightarrow> str list \<Rightarrow> completed \<Rightarrow> world
   \<Rightarrow> (exn + (string \<rightharpoonup> pyval)) \<times> world" where
  "respond e pdf_path output_dir cleanup_paths command process w =
     (case assemble_response e pdf_path output_dir command process w of
        (Inl x, w') \<Rightarrow> (Inl x, w')
      | (Inr response, w') \<Rightarrow>
          (case cleanup cleanup_paths w' of
             Inl x \<Rightarrow> (Inl x, w')
           | Inr w'' \<Rightarrow> (Inr response, w'')))"

text \<open>\<^verbatim>\<open>handler\<close>: an event maps \<^verbatim>\<open>input\<close> to the job input.\<close>

definition handler ::
  "env \<Rightarrow> (string \<rightharpoonup> (string \<rightharpoonup> str)) \<Rightarrow> world \<Rightarrow> (exn + (string \<rightharpoonup> pyval)) \<times> world" where
  "handler e event w =
     (let job_input = (case event ''input'' of None \<Rightarrow> Map.empty | Some j \<Rightarrow> j);
          prompt = job_input ''prompt'';
          output_dir = (case job_input ''output_dir'' of
                          None \<Rightarrow> DEFAULT_OUTPUT_DIR e
                        | Some s \<Rightarrow> parse_path s)
      in case mkdir_parents w output_dir of
           Inl x \<Rightarrow> (Inl x, w)
         | Inr w1 \<Rightarrow>
             (case ensure_pdf_input e job_input w1 of
                (Inl x, w2) \<Rightarrow> (Inl x, w2)
              | (Inr (pdf_path, cleanup_paths), w2) \<Rightarrow>
                  (let command = build_command e pdf_path output_dir prompt
                   in case run_pipeline e command w2 of
                        (Inl x, w3) \<Rightarrow> (Inl x, w3)
                      | (Inr process, w3) \<Rightarrow>
                          respond e pdf_path output_dir cleanup_paths command process w3)))"

section \<open>Example environments\<close>

text \<open>
  Concrete worlds on which the theorems below are exercised. The output directory is
  \<^verbatim>\<open>/out\<close>, the temporary directory \<^verbatim>\<open>/tmp\<close>, and \<^verbatim>\<open>mkstemp\<close> will draw the
  name \<^verbatim>\<open>abc\<close> first, so that an ephemeral input is \<^verbatim>\<open>/tmp/tmpabc.pdf\<close>.
\<close>

definition ex_out :: path where
  "ex_out = Path True [lit ''out'']"

definition ex_tmp_pdf :: path where
  "ex_tmp_pdf = Path True [lit ''tmp'', lit ''tmpabc.pdf'']"

definition ex_in_pdf :: path where
  "ex_in_pdf = Path True [lit ''in'', lit ''a.pdf'']"

definition ex_world :: world where
  "ex_world =
     \<lparr>files = [(Path True [lit ''tmp''], Dir), (Path True [lit ''in''], Dir),
               (ex_in_pdf, File [37, 80, 68, 70])],
      names = [lit ''abc'', lit ''def''], locked = []\<rparr>"

text \<open>A pipeline that exits with the given code and writes the given files.\<close>

definition ex_pipeline ::
  "int \<Rightarrow> (path \<times> node) list \<Rightarrow> str list \<Rightarrow> path \<Rightarrow> world \<Rightarrow> (exn + completed) \<times> world" where
  "ex_pipeline code written command cwd w =
     (Inr \<lparr>returncode = code, stdout = lit '' done '', stderr = []\<rparr>,
      w\<lparr>files := fold (\<lambda>(p, n). AList.update p n) written (files w)\<rparr>)"

definition ex_env :: "int \<Rightarrow> (path \<times> node) list \<Rightarrow> env" where
  "ex_env code written =
     \<lparr>ROOT_DIR = Path True [lit ''app''],
      DEFAULT_OUTPUT_DIR = ex_out,
      tmpdir = Path True [lit ''tmp''],
      homedir = (\<lambda>u. None),
      http_get = (\<lambda>url. Inr (200, [37, 80, 68, 70])),
      subprocess_run = ex_pipeline code written,
      zip_bytes = (\<lambda>es. concat (map (\<lambda>(n, c). case c of None \<Rightarrow> [] | Some bs \<Rightarrow> bs) es))\<rparr>"

text \<open>A job with a base64 payload, and the worlds it passes through.\<close>

definition ex_event :: "string \<rightharpoonup> (string \<rightharpoonup> str)" where
  "ex_event = [''input'' \<mapsto> [''pdf_base64'' \<mapsto> lit ''QUJD'']]"

definition ex_world1 :: world where
  "ex_world1 = ex_world\<lparr>files := files ex_world @ [(ex_out, Dir)]\<rparr>"

definition ex_world2 :: world where
  "ex_world2 = ex_world1\<lparr>files := files ex_world1 @ [(ex_tmp_pdf, File [65, 66, 67])],
                         names := [lit ''def'']\<rparr>"

text \<open>The primary and the detection markdown of that job, and what a pipeline run leaves.\<close>

definition ex_mmd :: path where
  "ex_mmd = Path True [lit ''out'', lit ''tmpabc.mmd'']"

definition ex_det :: path where
  "ex_det = Path True [lit ''out'', lit ''tmpabc_det.mmd'']"

definition ex_process :: "int \<Rightarrow> completed" where
  "ex_process c = \<lparr>returncode = c, stdout = lit '' done '', stderr = []\<rparr>"

definition ex_after :: "(path \<times> node) list \<Rightarrow> world \<Rightarrow> world" where
  "ex_after ws w = w\<lparr>files := fold (\<lambda>(p, n). AList.update p n) ws (files w)\<rparr>"



section \<open>Evaluation\<close>

lemmas path_defs = parse_path_def path_join_def path_str_def path_name_def path_stem_def
  lit_def SLASH_def DOT_def lower_def endswith_def base_stem_def

lemmas fs_defs = lookup_def path_exists_def is_file_def is_dir_def write_bytes_def
  read_bytes_def under_def

lemmas ex_defs = ex_out_def ex_tmp_pdf_def ex_in_pdf_def ex_world_def ex_env_def
  ex_pipeline_def

lemma ex_input:
  "[''pdf_base64'' \<mapsto> lit ''QUJD''] =
     (case ex_event ''input'' of None \<Rightarrow> Map.empty | Some j \<Rightarrow> j)"
  by (simp add: ex_event_def)

lemma ex_output_dir:
  "ex_out = (case [''pdf_base64'' \<mapsto> lit ''QUJD''] ''output_dir'' of
               None \<Rightarrow> DEFAULT_OUTPUT_DIR (ex_env c ws) | Some s \<Rightarrow> parse_path s)"
  by (simp add: ex_env_def)

lemma ex_mkdir: "mkdir_parents (ex_world\<lparr>locked := ls\<rparr>) ex_out = Inr (ex_world1\<lparr>locked := ls\<rparr>)"
  by (simp add: mkdir_parents_def ex_world1_def ex_world_def ex_out_def ex_in_pdf_def lit_def
      lookup_def)

lemma ex_resolve:
  "ensure_pdf_input (ex_env c ws) [''pdf_base64'' \<mapsto> lit ''QUJD''] (ex_world1\<lparr>locked := ls\<rparr>)
     = (Inr (ex_tmp_pdf, [ex_tmp_pdf]), ex_world2\<lparr>locked := ls\<rparr>)"
  by (simp add: ensure_pdf_input_def write_base64_file_def mkstemp_def temp_name_def
      ex_world1_def ex_world2_def b64decode_def a2b_base64_def table_a2b_base64_def
      path_defs fs_defs ex_defs)

lemma ex_run:
  "run_pipeline (ex_env c ws) cmd w = (Inr (ex_process c), ex_after ws w)"
  by (simp add: run_pipeline_def ex_env_def ex_pipeline_def ex_process_def ex_after_def)

lemma ex_handler_respond:
  "handler (ex_env c ws) ex_event (ex_world\<lparr>locked := ls\<rparr>) =
     respond (ex_env c ws) ex_tmp_pdf ex_out [ex_tmp_pdf]
       (build_command (ex_env c ws) ex_tmp_pdf ex_out None) (ex_process c)
       (ex_after ws (ex_world2\<lparr>locked := ls\<rparr>))"
  using ex_input ex_output_dir [of c ws] ex_mkdir [of ls] ex_resolve [of c ws ls]
  by (simp add: handler_def Let_def ex_run ex_event_def)

lemma ex_locked_nil: "w\<lparr>locked := locked w\<rparr> = w"
  by simp

lemmas ex_world_defs = ex_world_def ex_world1_def ex_world2_def ex_after_def ex_mmd_def
  ex_det_def ex_tmp_pdf_def ex_out_def ex_in_pdf_def



lemma ex_collect_undecodable:
  "collect_artifacts e ex_tmp_pdf ex_out (ex_after [(ex_mmd, File [255])] (ex_world2\<lparr>locked := []\<rparr>))
     = (Inl UnicodeDecodeError, ex_after [(ex_mmd, File [255])] (ex_world2\<lparr>locked := []\<rparr>))"
  by (simp add: collect_artifacts_def encode_text_file_def ex_world_defs path_defs fs_defs)



lemma ex_world_unlocked:
  "ex_world\<lparr>locked := []\<rparr> = ex_world" "ex_world1\<lparr>locked := []\<rparr> = ex_world1"
  "ex_world2\<lparr>locked := []\<rparr> = ex_world2"
  by (simp_all add: ex_world_def ex_world1_def ex_world2_def)





section \<open>Properties of the command\<close>

text \<open>
  Claim C6, as amended. For every resolved input path, output directory and optional
  prompt, the argument vector starts with the interpreter and the script, then holds
  \<^verbatim>\<open>--input\<close> followed by the resolved path and \<^verbatim>\<open>--output\<close> followed by the output
  directory; after these six fixed arguments it holds \<^verbatim>\<open>--prompt\<close>, followed by the
  prompt, if and only if a prompt string that is not empty was supplied, and nothing
  otherwise.
\<close>

theorem build_command_shape:
  "take 6 (build_command cfg pdf_path output_dir prompt) =
     [lit ''python'', path_str (SCRIPT_PATH cfg), lit ''--input'', path_str pdf_path,
      lit ''--output'', path_str output_dir]
   \<and> (lit ''--prompt'' \<in> set (drop 6 (build_command cfg pdf_path output_dir prompt))
        \<longleftrightarrow> (\<exists>p. prompt = Some p \<and> p \<noteq> []))
   \<and> drop 6 (build_command cfg pdf_path output_dir prompt) =
       (if \<exists>p. prompt = Some p \<and> p \<noteq> [] then [lit ''--prompt'', the prompt] else [])"
  by (cases prompt) (simp_all add: build_command_def)

text \<open>
  The claim as stated speaks of the whole vector, and there it fails: a path is passed as
  it is, so with the output directory \<^verbatim>\<open>--prompt\<close> and no prompt the vector holds
  \<^verbatim>\<open>--prompt\<close> as its last argument.
\<close>

theorem build_command_shape_counterexample:
  "lit ''--prompt''
     \<in> set (build_command (ex_env 0 []) ex_in_pdf (parse_path (lit ''--prompt'')) None)"
  by (simp add: build_command_def path_defs)

section \<open>Cleanup never raises and only removes\<close>

lemma unlink_exn: "unlink w p = Inl x \<Longrightarrow> x = OSError"
  by (auto simp: unlink_def split: option.splits node.splits if_splits)

lemma rmtree_exn: "rmtree w p = Inl x \<Longrightarrow> x = OSError"
  by (auto simp: rmtree_def split: if_splits)

lemma cleanup_path_returns: "\<exists>w'. cleanup_path w p = Inr w'"
  by (auto simp: cleanup_path_def split: sum.splits dest: unlink_exn rmtree_exn)













lemma cleanup_returns: "\<exists>w'. cleanup ps w = Inr w'"
proof (induction ps arbitrary: w)
  case Nil
  then show ?case by simp
next
  case (Cons p ps)
  obtain w1 where "cleanup_path w p = Inr w1"
    using cleanup_path_returns by blast
  then show ?case using Cons.IH [of w1] by simp
qed


section \<open>Input resolution: the priority of the source keys\<close>

text \<open>
  Claim C2. The keys are looked at in the order \<^verbatim>\<open>pdf_path\<close>, \<^verbatim>\<open>pdf_url\<close>,
  \<^verbatim>\<open>pdf_base64\<close>, and only the first one present is acted upon: whatever else the
  job input holds, the resolution does what it does on the input with that key alone.
  With \<^verbatim>\<open>pdf_path\<close> the world is left as it was (nothing is downloaded or decoded).
  With none of the three keys the resolution fails with a \<^verbatim>\<open>HandlerError\<close> and the world
  is left as it was: no temporary file is made.
\<close>

theorem ensure_pdf_input_priority:
  "(job_input ''pdf_path'' = Some s \<longrightarrow>
      ensure_pdf_input e job_input w = ensure_pdf_input e [''pdf_path'' \<mapsto> s] w
      \<and> snd (ensure_pdf_input e job_input w) = w)
   \<and> (job_input ''pdf_path'' = None \<and> job_input ''pdf_url'' = Some url \<longrightarrow>
      ensure_pdf_input e job_input w = ensure_pdf_input e [''pdf_url'' \<mapsto> url] w)
   \<and> (job_input ''pdf_path'' = None \<and> job_input ''pdf_url'' = None
        \<and> job_input ''pdf_base64'' = Some encoded \<longrightarrow>
      ensure_pdf_input e job_input w = ensure_pdf_input e [''pdf_base64'' \<mapsto> encoded] w)
   \<and> (job_input ''pdf_path'' = None \<and> job_input ''pdf_url'' = None
        \<and> job_input ''pdf_base64'' = None \<longrightarrow>
      (\<exists>msg. ensure_pdf_input e job_input w = (Inl (HandlerError msg), w)))"
  by (simp add: ensure_pdf_input_def split: sum.split)

theorem ensure_pdf_input_priority_witness:
  "ensure_pdf_input (ex_env 0 [])
     [''pdf_base64'' \<mapsto> lit ''QUJD'', ''pdf_url'' \<mapsto> lit ''http://host/a.pdf'',
      ''pdf_path'' \<mapsto> lit ''/in/a.pdf''] ex_world
   = (Inr (ex_in_pdf, []), ex_world)
   \<and> ensure_pdf_input (ex_env 0 [])
     [''pdf_base64'' \<mapsto> lit ''QUJD'', ''pdf_url'' \<mapsto> lit ''http://host/a.pdf''] ex_world
   = (Inr (ex_tmp_pdf, [ex_tmp_pdf]),
      ex_world\<lparr>files := files ex_world @ [(ex_tmp_pdf, File [37, 80, 68, 70])],
                names := [lit ''def'']\<rparr>)
   \<and> ensure_pdf_input (ex_env 0 []) [''pdf_base64'' \<mapsto> lit ''QUJD'', ''prompt'' \<mapsto> lit ''x''] ex_world
   = (Inr (ex_tmp_pdf, [ex_tmp_pdf]),
      ex_world\<lparr>files := files ex_world @ [(ex_tmp_pdf, File [65, 66, 67])],
                names := [lit ''def'']\<rparr>)
   \<and> (\<exists>msg. ensure_pdf_input (ex_env 0 []) [''prompt'' \<mapsto> lit ''x''] ex_world
          = (Inl (HandlerError msg), ex_world))"
proof -
  let ?e = "ex_env 0 []"
  have a: "ensure_pdf_input ?e [''pdf_path'' \<mapsto> lit ''/in/a.pdf''] ex_world
             = (Inr (ex_in_pdf, []), ex_world)"
    by code_simp
  have b: "ensure_pdf_input ?e [''pdf_url'' \<mapsto> lit ''http://host/a.pdf''] ex_world
             = (Inr (ex_tmp_pdf, [ex_tmp_pdf]),
                ex_world\<lparr>files := files ex_world @ [(ex_tmp_pdf, File [37, 80, 68, 70])],
                          names := [lit ''def'']\<rparr>)"
    by code_simp
  have c: "ensure_pdf_input ?e [''pdf_base64'' \<mapsto> lit ''QUJD''] ex_world
             = (Inr (ex_tmp_pdf, [ex_tmp_pdf]),
                ex_world\<lparr>files := files ex_world @ [(ex_tmp_pdf, File [65, 66, 67])],
                          names := [lit ''def'']\<rparr>)"
    by code_simp
  show ?thesis
    using a b c
      ensure_pdf_input_priority [of "[''pdf_base64'' \<mapsto> lit ''QUJD'',
          ''pdf_url'' \<mapsto> lit ''http://host/a.pdf'', ''pdf_path'' \<mapsto> lit ''/in/a.pdf'']"
          "lit ''/in/a.pdf''" ?e ex_world]
      ensure_pdf_input_priority [of "[''pdf_base64'' \<mapsto> lit ''QUJD'',
          ''pdf_url'' \<mapsto> lit ''http://host/a.pdf'']" _ ?e ex_world "lit ''http://host/a.pdf''"]
      ensure_pdf_input_priority [of "[''pdf_base64'' \<mapsto> lit ''QUJD'', ''prompt'' \<mapsto> lit ''x'']"
          _ ?e ex_world _ "lit ''QUJD''"]
      ensure_pdf_input_priority [of "[''prompt'' \<mapsto> lit ''x'']" _ ?e ex_world]
    by simp
qed

section \<open>A payload that cannot be decoded\<close>

text \<open>
  Claim C7, evaluated on \<^verbatim>\<open>{"pdf_base64": "Q"}\<close>, one data character, which
  \<^verbatim>\<open>b64decode\<close> refuses. The resolution raises, and so does the handler before any
  process is run, but \<^verbatim>\<open>_write_base64_file\<close> has called \<^verbatim>\<open>mkstemp\<close> before decoding:
  the empty temporary file \<^verbatim>\<open>/tmp/tmpabc.pdf\<close>, which did not exist, is left behind.
  A failing download leaves no such file: \<^verbatim>\<open>_download_to_file\<close> makes the temporary
  file only after the request has succeeded.
\<close>

theorem write_base64_file_leaves_file:
  "ensure_pdf_input (ex_env 0 []) [''pdf_base64'' \<mapsto> lit ''Q''] ex_world
     = (Inl BinasciiError,
        ex_world\<lparr>files := files ex_world @ [(ex_tmp_pdf, File [])], names := [lit ''def'']\<rparr>)
   \<and> handler (ex_env 0 []) [''input'' \<mapsto> [''pdf_base64'' \<mapsto> lit ''Q'']] ex_world
     = (Inl BinasciiError,
        ex_world1\<lparr>files := files ex_world1 @ [(ex_tmp_pdf, File [])], names := [lit ''def'']\<rparr>)
   \<and> \<not> path_exists ex_world ex_tmp_pdf
   \<and> path_exists
        (ex_world1\<lparr>files := files ex_world1 @ [(ex_tmp_pdf, File [])], names := [lit ''def'']\<rparr>)
        ex_tmp_pdf"
proof -
  have d: "DEFAULT_OUTPUT_DIR (ex_env 0 []) = ex_out"
    by (simp add: ex_env_def)
  have m: "mkdir_parents ex_world ex_out = Inr ex_world1"
    by code_simp
  have r: "ensure_pdf_input (ex_env 0 []) [''pdf_base64'' \<mapsto> lit ''Q''] ex_world1
     = (Inl BinasciiError,
        ex_world1\<lparr>files := files ex_world1 @ [(ex_tmp_pdf, File [])], names := [lit ''def'']\<rparr>)"
    by code_simp
  have "handler (ex_env 0 []) [''input'' \<mapsto> [''pdf_base64'' \<mapsto> lit ''Q'']] ex_world
     = (Inl BinasciiError,
        ex_world1\<lparr>files := files ex_world1 @ [(ex_tmp_pdf, File [])], names := [lit ''def'']\<rparr>)"
    by (simp add: handler_def d m r)
  moreover have "ensure_pdf_input (ex_env 0 []) [''pdf_base64'' \<mapsto> lit ''Q''] ex_world
     = (Inl BinasciiError,
        ex_world\<lparr>files := files ex_world @ [(ex_tmp_pdf, File [])], names := [lit ''def'']\<rparr>)"
    by code_simp
  moreover have "\<not> path_exists ex_world ex_tmp_pdf"
    by code_simp
  moreover have "path_exists
        (ex_world1\<lparr>files := files ex_world1 @ [(ex_tmp_pdf, File [])], names := [lit ''def'']\<rparr>)
        ex_tmp_pdf"
    by code_simp
  ultimately show ?thesis by simp
qed

section \<open>The exit code of the pipeline\<close>

lemma dom_base_response:
  "dom ((base_response command process)(''status'' \<mapsto> v)) =
     {''command'', ''return_code'', ''stdout'', ''stderr'', ''status''}"
  by (auto simp: base_response_def)

text \<open>
  Claim C3, as amended. Take a job call in which the output directory could be made, the
  input was resolved and the pipeline process terminated. If its return code is not
  zero, the handler raises nothing: it returns a response with status \<^verbatim>\<open>failed\<close>, the
  return code and the stripped output streams, and with no key besides \<^verbatim>\<open>command\<close>,
  \<^verbatim>\<open>return_code\<close>, \<^verbatim>\<open>stdout\<close>, \<^verbatim>\<open>stderr\<close> and \<^verbatim>\<open>status\<close>; the artifact
  collection does not run (the cleanup starts from the world the pipeline left). If
  the return code is zero, the artifact collection runs on the world the pipeline left:
  when it returns, the response has status \<^verbatim>\<open>succeeded\<close> and the artifact fields
  merged into it, and when it raises, the handler raises the same exception and returns
  no response.
\<close>

theorem handler_exit_code:
  assumes "job_input = (case event ''input'' of None \<Rightarrow> Map.empty | Some j \<Rightarrow> j)"
    and "output_dir = (case job_input ''output_dir'' of
                         None \<Rightarrow> DEFAULT_OUTPUT_DIR e | Some s \<Rightarrow> parse_path s)"
    and "mkdir_parents w output_dir = Inr w1"
    and "ensure_pdf_input e job_input w1 = (Inr (pdf_path, cleanup_paths), w2)"
    and "command = build_command e pdf_path output_dir (job_input ''prompt'')"
    and "run_pipeline e command w2 = (Inr process, w3)"
  shows "(returncode process \<noteq> 0 \<longrightarrow>
           (\<exists>response w'.
              handler e event w = (Inr response, w')
              \<and> cleanup cleanup_paths w3 = Inr w'
              \<and> response ''status'' = Some (PStr (lit ''failed''))
              \<and> response ''return_code'' = Some (PInt (returncode process))
              \<and> response ''stdout'' = Some (PStr (strip (stdout process)))
              \<and> response ''stderr'' = Some (PStr (strip (stderr process)))
              \<and> dom response = {''command'', ''return_code'', ''stdout'', ''stderr'', ''status''}))
       \<and> (returncode process = 0 \<longrightarrow>
           (case collect_artifacts e pdf_path output_dir w3 of
              (Inl x, w4) \<Rightarrow> handler e event w = (Inl x, w4)
            | (Inr artifacts, w4) \<Rightarrow>
                (\<exists>w'. handler e event w =
                         (Inr ((base_response command process)
                                 (''status'' \<mapsto> PStr (lit ''succeeded'')) ++ artifacts), w')
                       \<and> cleanup cleanup_paths w4 = Inr w')))"
proof (intro conjI impI)
  have hu: "handler e event w = respond e pdf_path output_dir cleanup_paths command process w3"
    using assms by (simp add: handler_def Let_def)
  {
  assume rc: "returncode process \<noteq> 0"
  obtain w' where w': "cleanup cleanup_paths w3 = Inr w'"
    using cleanup_returns by blast
  let ?r = "(base_response command process)(''status'' \<mapsto> PStr (lit ''failed''))"
  have "handler e event w = (Inr ?r, w')"
    using rc w' by (simp add: hu respond_def assemble_response_def)
  moreover have "dom ?r = {''command'', ''return_code'', ''stdout'', ''stderr'', ''status''}"
    by (rule dom_base_response)
  moreover have "?r ''status'' = Some (PStr (lit ''failed''))"
    "?r ''return_code'' = Some (PInt (returncode process))"
    "?r ''stdout'' = Some (PStr (strip (stdout process)))"
    "?r ''stderr'' = Some (PStr (strip (stderr process)))"
    by (simp_all add: base_response_def)
  ultimately show "\<exists>response w'.
              handler e event w = (Inr response, w')
              \<and> cleanup cleanup_paths w3 = Inr w'
              \<and> response ''status'' = Some (PStr (lit ''failed''))
              \<and> response ''return_code'' = Some (PInt (returncode process))
              \<and> response ''stdout'' = Some (PStr (strip (stdout process)))
              \<and> response ''stderr'' = Some (PStr (strip (stderr process)))
              \<and> dom response = {''command'', ''return_code'', ''stdout'', ''stderr'', ''status''}"
    using w' by blast
  }
  {
  assume rc: "returncode process = 0"
  show "case collect_artifacts e pdf_path output_dir w3 of
          (Inl x, w4) \<Rightarrow> handler e event w = (Inl x, w4)
        | (Inr artifacts, w4) \<Rightarrow>
            (\<exists>w'. handler e event w =
                     (Inr ((base_response command process)
                             (''status'' \<mapsto> PStr (lit ''succeeded'')) ++ artifacts), w')
                   \<and> cleanup cleanup_paths w4 = Inr w')"
  proof (cases "collect_artifacts e pdf_path output_dir w3")
    case (Pair r w4)
    show ?thesis
    proof (cases r)
      case (Inl x)
      then show ?thesis using Pair rc
        by (simp add: hu respond_def assemble_response_def)
    next
      case (Inr artifacts)
      obtain w' where "cleanup cleanup_paths w4 = Inr w'"
        using cleanup_returns by blast
      then show ?thesis using Pair Inr rc
        by (simp add: hu respond_def assemble_response_def)
    qed
  qed
  }
qed


theorem handler_exit_code_witness:
  "(\<exists>response w'.
      handler (ex_env 1 []) ex_event ex_world = (Inr response, w')
      \<and> response ''status'' = Some (PStr (lit ''failed''))
      \<and> response ''return_code'' = Some (PInt 1)
      \<and> dom response = {''command'', ''return_code'', ''stdout'', ''stderr'', ''status''})
   \<and> (\<exists>response w'.
      handler (ex_env 0 []) ex_event ex_world = (Inr response, w')
      \<and> response ''status'' = Some (PStr (lit ''succeeded''))
      \<and> response ''markdown_missing'' = Some (PStr (lit ''/out/tmpabc.mmd'')))"
proof -
  let ?ji = "[''pdf_base64'' \<mapsto> lit ''QUJD'']"
  have j: "?ji = (case ex_event ''input'' of None \<Rightarrow> Map.empty | Some j \<Rightarrow> j)"
    by (simp add: ex_event_def)
  have d: "\<And>c. ex_out = (case ?ji ''output_dir'' of
                          None \<Rightarrow> DEFAULT_OUTPUT_DIR (ex_env c []) | Some s \<Rightarrow> parse_path s)"
    by (simp add: ex_env_def)
  have m: "mkdir_parents ex_world ex_out = Inr ex_world1"
    by code_simp
  have r: "\<And>c. ensure_pdf_input (ex_env c []) ?ji ex_world1 = (Inr (ex_tmp_pdf, [ex_tmp_pdf]), ex_world2)"
    by (simp add: ensure_pdf_input_def write_base64_file_def mkstemp_def ex_env_def temp_name_def
        path_join_def parse_path_def lit_def ex_world1_def ex_world_def path_exists_def
        lookup_def write_bytes_def ex_tmp_pdf_def ex_out_def ex_in_pdf_def ex_world2_def
        SLASH_def DOT_def b64decode_def a2b_base64_def table_a2b_base64_def)
  have p: "\<And>c cmd. run_pipeline (ex_env c []) cmd ex_world2
             = (Inr \<lparr>returncode = c, stdout = lit '' done '', stderr = []\<rparr>, ex_world2)"
    by (simp add: run_pipeline_def ex_env_def ex_pipeline_def)
  have c: "collect_artifacts (ex_env 0 []) ex_tmp_pdf ex_out ex_world2
             = (Inr [''markdown_missing'' \<mapsto> PStr (lit ''/out/tmpabc.mmd'')], ex_world2)"
    by (simp add: collect_artifacts_def encode_text_file_def path_defs fs_defs ex_defs
        ex_world1_def ex_world2_def)
  have one: "\<exists>response w'.
      handler (ex_env 1 []) ex_event ex_world = (Inr response, w')
      \<and> response ''status'' = Some (PStr (lit ''failed''))
      \<and> response ''return_code'' = Some (PInt 1)
      \<and> dom response = {''command'', ''return_code'', ''stdout'', ''stderr'', ''status''}"
    using handler_exit_code [where event = ex_event and job_input = ?ji and e = "ex_env 1 []"
        and output_dir = ex_out and w = ex_world and ?w1.0 = ex_world1 and ?w2.0 = ex_world2
        and ?w3.0 = ex_world2 and pdf_path = ex_tmp_pdf and cleanup_paths = "[ex_tmp_pdf]"
        and process = "\<lparr>returncode = 1, stdout = lit '' done '', stderr = []\<rparr>", OF j d m r refl p]
    by auto
  have two: "\<exists>response w'.
      handler (ex_env 0 []) ex_event ex_world = (Inr response, w')
      \<and> response ''status'' = Some (PStr (lit ''succeeded''))
      \<and> response ''markdown_missing'' = Some (PStr (lit ''/out/tmpabc.mmd''))"
    using handler_exit_code [where event = ex_event and job_input = ?ji and e = "ex_env 0 []"
        and output_dir = ex_out and w = ex_world and ?w1.0 = ex_world1 and ?w2.0 = ex_world2
        and ?w3.0 = ex_world2 and pdf_path = ex_tmp_pdf and cleanup_paths = "[ex_tmp_pdf]"
        and process = "\<lparr>returncode = 0, stdout = lit '' done '', stderr = []\<rparr>", OF j d m r refl p]
    by (auto simp: c map_add_def base_response_def)
  show ?thesis using one two by blast
qed


text \<open>
  The claim as stated promises status \<^verbatim>\<open>succeeded\<close> for every return code zero. It
  fails when the collection raises: the pipeline exits with code zero and leaves a
  primary markdown file holding the single byte FF, which is not UTF-8, and the handler
  raises \<^verbatim>\<open>UnicodeDecodeError\<close> instead of returning a response.
\<close>

theorem handler_exit_code_counterexample:
  "run_pipeline (ex_env 0 [(ex_mmd, File [255])])
       (build_command (ex_env 0 [(ex_mmd, File [255])]) ex_tmp_pdf ex_out None) ex_world2
     = (Inr (ex_process 0), ex_after [(ex_mmd, File [255])] ex_world2)
   \<and> returncode (ex_process 0) = 0
   \<and> handler (ex_env 0 [(ex_mmd, File [255])]) ex_event ex_world
       = (Inl UnicodeDecodeError, ex_after [(ex_mmd, File [255])] ex_world2)"
  using ex_handler_respond [of 0 "[(ex_mmd, File [255])]" "[]"]
    ex_collect_undecodable [of "ex_env 0 [(ex_mmd, File [255])]"]
  by (simp add: ex_world_unlocked respond_def assemble_response_def ex_process_def ex_run)

section \<open>The markers of the artifact collection\<close>












section \<open>Cleanup after the response\<close>









section \<open>What the handler never removes\<close>









end
